theory Spec2Isabelle
  imports Main
begin

section \<open>Service discovery (XEP-0030): the node handler registry and its dispatcher\<close>

text \<open>
  A shallow embedding of \<^verbatim>\<open>sleekxmpp/plugins/xep_0030/disco.py\<close>. The plugin object
  becomes a record that is passed in and returned; every Python exception is a value
  of \<open>pyerr\<close>; a node handler is a function that may read and change a backing store
  of type \<open>'w\<close> and returns either an exception or a Python value (\<open>None\<close>, or a stanza
  object of type \<open>'r\<close>).
\<close>

subsection \<open>Python values and exceptions\<close>

type_synonym jid = string
type_synonym node = string

datatype pyval = PNone | PBool bool | PInt int | PStr string | PObj string

datatype pyerr = KeyError string | TypeError | InvalidArgument | HandlerError string

text \<open>Truth value of a Python value in a boolean context.\<close>

fun py_truthy :: "pyval \<Rightarrow> bool" where
  "py_truthy PNone = False"
| "py_truthy (PBool b) = b"
| "py_truthy (PInt i) = (i \<noteq> 0)"
| "py_truthy (PStr s) = (s \<noteq> [])"
| "py_truthy (PObj _) = True"

text \<open>\<^verbatim>\<open>d.get(k, default)\<close> on a keyword dictionary.\<close>

definition dict_get :: "(string \<rightharpoonup> pyval) \<Rightarrow> string \<Rightarrow> pyval \<Rightarrow> pyval" where
  "dict_get d k dflt = (case d k of None \<Rightarrow> dflt | Some v \<Rightarrow> v)"

subsection \<open>The collaborators the plugin reads\<close>

text \<open>
  An address object with its two string forms, the hosting stream object (only the
  attributes the plugin reads: the mode flag, the bound address, and whether the
  result-set plugin is loaded), and an incoming Iq stanza carrying a discovery query.
\<close>

record JID =
  full :: string
  bare :: string

record xmpp =
  is_component :: bool
  boundjid :: JID
  xep_0059 :: bool

record iq =
  iq_type :: string
  iq_from :: JID
  iq_to :: JID
  query_node :: string

datatype data = Kwargs "string \<rightharpoonup> pyval" | Stanza iq

subsection \<open>Handlers and the three-tier hierarchy\<close>

text \<open>
  A handler is called as \<^verbatim>\<open>handler(jid, node, data)\<close>. An entry of a tier holds a handler
  or Python's \<open>None\<close> (the inner option); a key that was never stored is the outer
  \<open>None\<close> of the map. A handler is a function object, which is true in a boolean context;
  \<open>None\<close> and the default \<open>False\<close> of \<^verbatim>\<open>.get(key, False)\<close> are false.
\<close>

type_synonym ('w, 'r) handler = "jid \<Rightarrow> node \<Rightarrow> data \<Rightarrow> 'w \<Rightarrow> (pyerr + 'r option) \<times> 'w"

record ('w, 'r) hierarchy =
  h_global :: "('w, 'r) handler option"
  h_jid :: "jid \<rightharpoonup> ('w, 'r) handler option"
  h_node :: "(jid \<times> node) \<rightharpoonup> ('w, 'r) handler option"

record ('w, 'r) disco =
  xmpp :: xmpp
  disco_ops :: "string list"
  default_handlers :: "string \<rightharpoonup> ('w, 'r) handler option"
  handlers :: "string \<rightharpoonup> ('w, 'r) hierarchy"

text \<open>The address used when the caller gives none: full in component mode, else bare.\<close>

definition own_jid :: "xmpp \<Rightarrow> jid" where
  "own_jid x = (if is_component x then full (boundjid x) else bare (boundjid x))"

subsection \<open>Initialisation\<close>

definition all_disco_ops :: "string list" where
  "all_disco_ops = [''get_info'', ''set_identities'', ''set_features'',
                    ''get_items'', ''set_items'', ''del_items'',
                    ''add_identity'', ''del_identity'', ''add_feature'',
                    ''del_feature'', ''add_item'', ''del_item'',
                    ''del_identities'', ''del_features'']"

definition add_disco_op ::
  "('w, 'r) disco \<Rightarrow> string \<Rightarrow> ('w, 'r) handler option \<Rightarrow> ('w, 'r) disco" where
  "add_disco_op st op default_handler =
     st\<lparr>default_handlers := (default_handlers st)(op \<mapsto> default_handler),
        handlers := (handlers st)(op \<mapsto>
          \<lparr>h_global = default_handler, h_jid = Map.empty, h_node = Map.empty\<rparr>)\<rparr>"

text \<open>
  \<open>plugin_init\<close>: the registry part of the start-up. The static handlers
  (\<^verbatim>\<open>getattr(self.static, op)\<close>) are a parameter: one handler for each operation name.
\<close>

definition plugin_init :: "xmpp \<Rightarrow> (string \<Rightarrow> ('w, 'r) handler) \<Rightarrow> ('w, 'r) disco" where
  "plugin_init x static =
     foldl (\<lambda>st op. add_disco_op st op (Some (static op)))
       \<lparr>xmpp = x, disco_ops = all_disco_ops,
        default_handlers = Map.empty, handlers = Map.empty\<rparr>
       all_disco_ops"

subsection \<open>Registration\<close>

definition set_node_handler ::
  "('w, 'r) disco \<Rightarrow> string \<Rightarrow> jid option \<Rightarrow> node option \<Rightarrow> ('w, 'r) handler option
     \<Rightarrow> (pyerr + unit) \<times> ('w, 'r) disco" where
  "set_node_handler st htype jid node handler =
     (if htype \<notin> set (disco_ops st) then (Inr (), st)
      else case handlers st htype of
        None \<Rightarrow> (Inl (KeyError htype), st)
      | Some t \<Rightarrow>
          (case (jid, node) of
             (None, None) \<Rightarrow>
               (Inr (), st\<lparr>handlers := (handlers st)(htype \<mapsto> t\<lparr>h_global := handler\<rparr>)\<rparr>)
           | (Some j, None) \<Rightarrow>
               (Inr (), st\<lparr>handlers := (handlers st)(htype \<mapsto>
                              t\<lparr>h_jid := (h_jid t)(j \<mapsto> handler)\<rparr>)\<rparr>)
           | (None, Some n) \<Rightarrow>
               (Inr (), st\<lparr>handlers := (handlers st)(htype \<mapsto>
                              t\<lparr>h_node := (h_node t)((own_jid (xmpp st), n) \<mapsto> handler)\<rparr>)\<rparr>)
           | (Some j, Some n) \<Rightarrow>
               (Inr (), st\<lparr>handlers := (handlers st)(htype \<mapsto>
                              t\<lparr>h_node := (h_node t)((j, n) \<mapsto> handler)\<rparr>)\<rparr>)))"

definition del_node_handler ::
  "('w, 'r) disco \<Rightarrow> string \<Rightarrow> jid option \<Rightarrow> node option \<Rightarrow> (pyerr + unit) \<times> ('w, 'r) disco" where
  "del_node_handler st htype jid node = set_node_handler st htype jid node None"

text \<open>
  The loop of \<open>restore_defaults\<close>. \<^verbatim>\<open>self.default_handlers[op]\<close> is evaluated after the
  removal and before the second registration; an exception leaves the registry as
  the earlier iterations made it.
\<close>

fun restore_loop ::
  "('w, 'r) disco \<Rightarrow> jid option \<Rightarrow> node option \<Rightarrow> string list \<Rightarrow> (pyerr + unit) \<times> ('w, 'r) disco" where
  "restore_loop st jid node [] = (Inr (), st)"
| "restore_loop st jid node (op # ops) =
     (case del_node_handler st op jid node of
        (Inl e, st1) \<Rightarrow> (Inl e, st1)
      | (Inr _, st1) \<Rightarrow>
          (case default_handlers st1 op of
             None \<Rightarrow> (Inl (KeyError op), st1)
           | Some dflt \<Rightarrow>
               (case set_node_handler st1 op jid node dflt of
                  (Inl e, st2) \<Rightarrow> (Inl e, st2)
                | (Inr _, st2) \<Rightarrow> restore_loop st2 jid node ops)))"

definition restore_defaults ::
  "('w, 'r) disco \<Rightarrow> jid option \<Rightarrow> node option \<Rightarrow> string list option
     \<Rightarrow> (pyerr + unit) \<times> ('w, 'r) disco" where
  "restore_defaults st jid node hs =
     restore_loop st jid node (case hs of None \<Rightarrow> disco_ops st | Some l \<Rightarrow> l)"

subsection \<open>Dispatch\<close>

definition run_node_handler ::
  "('w, 'r) disco \<Rightarrow> string \<Rightarrow> jid option \<Rightarrow> node option \<Rightarrow> data \<Rightarrow> 'w
     \<Rightarrow> (pyerr + 'r option) \<times> 'w" where
  "run_node_handler st htype jid node dat w =
     (let j = (case jid of None \<Rightarrow> own_jid (xmpp st) | Some a \<Rightarrow> a);
          n = (case node of None \<Rightarrow> [] | Some m \<Rightarrow> m)
      in case handlers st htype of
           None \<Rightarrow> (Inl (KeyError htype), w)
         | Some t \<Rightarrow>
             (case h_node t (j, n) of
                Some (Some h) \<Rightarrow> h j n dat w
              | _ \<Rightarrow>
                 (case h_jid t j of
                    Some (Some h) \<Rightarrow> h j n dat w
                  | _ \<Rightarrow>
                     (case h_global t of
                        Some h \<Rightarrow> h j n dat w
                      | None \<Rightarrow> (Inr None, w)))))"

subsection \<open>The info stanza and default injection\<close>

text \<open>
  Modelled from the spec: the info stanza class (\<^verbatim>\<open>DiscoInfo\<close>) is not among the sources.
  An info result has a node, identities and features; an identity is (category, type,
  language, name), a feature is a namespace string, both kept in insertion order.
\<close>

type_synonym identity = "string \<times> string \<times> string option \<times> string option"

record disco_info =
  info_node :: string
  identities :: "identity list"
  features :: "string list"

text \<open>
  Modelled from the spec: the namespace attribute of the missing stanza class, the
  well-known discovery-info namespace identifier.
\<close>

definition disco_info_namespace :: string where
  "disco_info_namespace = ''http://jabber.org/protocol/disco#info''"

text \<open>
  Modelled from the spec: \<^verbatim>\<open>add_identity\<close> of the missing stanza class. The triple (category,
  type, language) is unique within one result; adding inserts or replaces, and fails
  with \<open>InvalidArgument\<close> when category or type is empty.
\<close>

definition info_add_identity ::
  "string \<Rightarrow> string \<Rightarrow> string option \<Rightarrow> string option \<Rightarrow> disco_info \<Rightarrow> pyerr + disco_info" where
  "info_add_identity category itype name lang info =
     (if category = [] \<or> itype = [] then Inl InvalidArgument
      else Inr (info\<lparr>identities :=
                  filter (\<lambda>(c, t, l, _). (c, t, l) \<noteq> (category, itype, lang)) (identities info)
                  @ [(category, itype, lang, name)]\<rparr>))"

text \<open>
  Modelled from the spec: \<^verbatim>\<open>add_feature\<close> of the missing stanza class. A feature is inserted
  if absent; adding it again changes nothing.
\<close>

definition info_add_feature :: "string \<Rightarrow> disco_info \<Rightarrow> disco_info" where
  "info_add_feature feature info =
     (if feature \<in> set (features info) then info
      else info\<lparr>features := features info @ [feature]\<rparr>)"

text \<open>
  \<open>fix_default_info\<close> subscripts its argument first, so Python's \<open>None\<close> raises
  \<open>TypeError\<close> there.
\<close>

definition fix_default_info :: "xmpp \<Rightarrow> disco_info option \<Rightarrow> pyerr + disco_info" where
  "fix_default_info x info =
     (case info of
        None \<Rightarrow> Inl TypeError
      | Some i \<Rightarrow>
          if info_node i = [] then
            (case (if identities i = [] then
                     (if is_component x
                      then info_add_identity ''component'' ''generic'' None None i
                      else info_add_identity ''client'' ''bot'' None None i)
                   else Inr i) of
               Inl e \<Rightarrow> Inl e
             | Inr i1 \<Rightarrow>
                 Inr (if features i1 = [] then info_add_feature disco_info_namespace i1 else i1))
          else Inr i)"

subsection \<open>Queries\<close>

text \<open>
  A query is answered locally (the value the call returns) or handed to the
  transport: the request built, with the completion options read from the keyword
  arguments, or an iteration over result pages.
\<close>

record request =
  req_from :: pyval
  req_to :: jid
  req_type :: string
  req_node :: string

datatype 'a outcome = Local 'a | Sent request pyval pyval pyval | Iterate request

definition make_request :: "(string \<rightharpoonup> pyval) \<Rightarrow> jid \<Rightarrow> node option \<Rightarrow> request" where
  "make_request kwargs j node =
     \<lparr>req_from = dict_get kwargs ''ifrom'' (dict_get kwargs ''dfrom'' (PStr [])),
      req_to = j, req_type = ''get'',
      req_node = (case node of None \<Rightarrow> [] | Some n \<Rightarrow> n)\<rparr>"

definition send_request :: "(string \<rightharpoonup> pyval) \<Rightarrow> request \<Rightarrow> 'a outcome" where
  "send_request kwargs r =
     Sent r (dict_get kwargs ''timeout'' PNone) (dict_get kwargs ''block'' (PBool True))
            (dict_get kwargs ''callback'' PNone)"

definition get_info ::
  "('w, disco_info) disco \<Rightarrow> jid option \<Rightarrow> node option \<Rightarrow> bool \<Rightarrow> (string \<rightharpoonup> pyval) \<Rightarrow> 'w
     \<Rightarrow> (pyerr + disco_info outcome) \<times> 'w" where
  "get_info st jid node local kwargs w =
     (let looked_up =
            (case run_node_handler st ''get_info'' jid node (Kwargs kwargs) w of
               (Inl e, w') \<Rightarrow> (Inl e, w')
             | (Inr info, w') \<Rightarrow>
                 (case fix_default_info (xmpp st) info of
                    Inl e \<Rightarrow> (Inl e, w')
                  | Inr i \<Rightarrow> (Inr (Local i), w')))
      in case jid of
           None \<Rightarrow> looked_up
         | Some j \<Rightarrow>
             if local then looked_up
             else (Inr (send_request kwargs (make_request kwargs j node)), w))"

definition get_items ::
  "('w, 'r) disco \<Rightarrow> jid option \<Rightarrow> node option \<Rightarrow> bool \<Rightarrow> (string \<rightharpoonup> pyval) \<Rightarrow> 'w
     \<Rightarrow> (pyerr + 'r option outcome) \<times> 'w" where
  "get_items st jid node local kwargs w =
     (let looked_up =
            (case run_node_handler st ''get_items'' jid node (Kwargs kwargs) w of
               (Inl e, w') \<Rightarrow> (Inl e, w')
             | (Inr items, w') \<Rightarrow> (Inr (Local items), w'))
      in case jid of
           None \<Rightarrow> looked_up
         | Some j \<Rightarrow>
             if local then looked_up
             else if py_truthy (dict_get kwargs ''iterator'' (PBool False)) \<and> xep_0059 (xmpp st)
             then (Inr (Iterate (make_request kwargs j node)), w)
             else (Inr (send_request kwargs (make_request kwargs j node)), w))"

definition add_item ::
  "('w, 'r) disco \<Rightarrow> string \<Rightarrow> string \<Rightarrow> node option \<Rightarrow> string \<Rightarrow> jid option \<Rightarrow> 'w
     \<Rightarrow> (pyerr + unit) \<times> 'w" where
  "add_item st jid name node subnode ijid w =
     (let item_jid = (if jid = [] then full (boundjid (xmpp st)) else jid);
          kwargs = [''ijid'' \<mapsto> PStr item_jid, ''name'' \<mapsto> PStr name, ''inode'' \<mapsto> PStr subnode]
      in case run_node_handler st ''add_item'' ijid node (Kwargs kwargs) w of
           (Inl e, w') \<Rightarrow> (Inl e, w')
         | (Inr _, w') \<Rightarrow> (Inr (), w'))"

subsection \<open>Incoming stanzas\<close>

text \<open>
  What the stream sees of one incoming stanza: a reply to it with an optional payload,
  or an event raised with it. Every exception of the two stream handlers arises before
  \<^verbatim>\<open>iq.send()\<close>, so an error result means that nothing was sent. The truth value of a
  stanza object in \<^verbatim>\<open>if info:\<close> is decided by the stanza base class, which is not
  among the sources; it is the parameter \<open>stanza_bool\<close>.
\<close>

datatype 'r action = Reply iq "'r option" | Event string iq

definition handle_disco_info ::
  "(disco_info \<Rightarrow> bool) \<Rightarrow> ('w, disco_info) disco \<Rightarrow> iq \<Rightarrow> 'w
     \<Rightarrow> (pyerr + disco_info action list) \<times> 'w" where
  "handle_disco_info stanza_bool st q w =
     (if iq_type q = ''get'' then
        (let j = (if is_component (xmpp st) then full (iq_to q) else bare (iq_to q)) in
         case run_node_handler st ''get_info'' (Some j) (Some (query_node q)) (Stanza q) w of
           (Inl e, w') \<Rightarrow> (Inl e, w')
         | (Inr None, w') \<Rightarrow> (Inr [Reply q None], w')
         | (Inr (Some info), w') \<Rightarrow>
             if stanza_bool info then
               (case fix_default_info (xmpp st) (Some info) of
                  Inl e \<Rightarrow> (Inl e, w')
                | Inr fixed \<Rightarrow> (Inr [Reply q (Some fixed)], w'))
             else (Inr [Reply q None], w'))
      else if iq_type q = ''result'' then (Inr [Event ''disco_info'' q], w)
      else (Inr [], w))"

definition handle_disco_items ::
  "('r \<Rightarrow> bool) \<Rightarrow> ('w, 'r) disco \<Rightarrow> iq \<Rightarrow> 'w \<Rightarrow> (pyerr + 'r action list) \<times> 'w" where
  "handle_disco_items stanza_bool st q w =
     (if iq_type q = ''get'' then
        (let j = (if is_component (xmpp st) then full (iq_to q) else bare (iq_to q)) in
         case run_node_handler st ''get_items'' (Some j) (Some (query_node q)) (Stanza q) w of
           (Inl e, w') \<Rightarrow> (Inl e, w')
         | (Inr None, w') \<Rightarrow> (Inr [Reply q None], w')
         | (Inr (Some items), w') \<Rightarrow>
             if stanza_bool items then (Inr [Reply q (Some items)], w')
             else (Inr [Reply q None], w'))
      else if iq_type q = ''result'' then (Inr [Event ''disco_items'' q], w)
      else (Inr [], w))"

subsection \<open>The default store's item insertion\<close>

text \<open>
  The default in-memory store (\<^verbatim>\<open>StaticDisco\<close>) is not among the sources. Of it, only the
  item lists are needed here: one list of items (item address, item node, name) per
  scope, empty for a scope never written.
\<close>

type_synonym item = "string \<times> string \<times> string"
type_synonym store = "jid \<times> node \<Rightarrow> item list"

text \<open>
  Modelled from the spec: insertion into an item list of the missing store, keyed by
  (item address, item node): an item with the same key has its name updated, no
  duplicate is created.
\<close>

fun upsert_item :: "item \<Rightarrow> item list \<Rightarrow> item list" where
  "upsert_item it [] = [it]"
| "upsert_item it (x # xs) =
     (if fst it = fst x \<and> fst (snd it) = fst (snd x) then it # xs else x # upsert_item it xs)"

text \<open>
  Modelled from the spec: the \<open>add_item\<close> handler of the missing store. It inserts or
  replaces in the item list of the scope and fails with \<open>InvalidArgument\<close> when the item
  address is empty.
\<close>

definition store_add_item :: "(store, 'r) handler" where
  "store_add_item j n dat s =
     (case dat of
        Kwargs kw \<Rightarrow>
          (case (kw ''ijid'', kw ''inode'', kw ''name'') of
             (Some (PStr ia), Some (PStr inode), Some (PStr nm)) \<Rightarrow>
               if ia = [] then (Inl InvalidArgument, s)
               else (Inr None, s((j, n) := upsert_item (ia, inode, nm) (s (j, n))))
           | _ \<Rightarrow> (Inl TypeError, s))
      | Stanza _ \<Rightarrow> (Inl TypeError, s))"

subsection \<open>The specification's resolution rule\<close>

text \<open>
  Written from the specification's words, to compare with the dispatch above: the
  tiers of one operation for a scope, most specific first (per-scope, per-address,
  global), each holding a handler or nothing; resolution takes the first tier that
  holds a handler.
\<close>

definition tier_entry :: "('k \<rightharpoonup> 'h option) \<Rightarrow> 'k \<Rightarrow> 'h option" where
  "tier_entry m k = Option.bind (m k) (\<lambda>v. v)"

definition spec_tiers :: "('w, 'r) hierarchy \<Rightarrow> jid \<Rightarrow> node \<Rightarrow> ('w, 'r) handler option list" where
  "spec_tiers t a n = [tier_entry (h_node t) (a, n), tier_entry (h_jid t) a, h_global t]"

definition spec_resolve :: "('w, 'r) hierarchy \<Rightarrow> jid \<Rightarrow> node \<Rightarrow> ('w, 'r) handler option" where
  "spec_resolve t a n =
     (case List.map_filter (\<lambda>v. v) (spec_tiers t a n) of [] \<Rightarrow> None | h # _ \<Rightarrow> Some h)"

text \<open>Calling what resolution found; no handler gives Python's \<open>None\<close>.\<close>

definition invoke ::
  "('w, 'r) handler option \<Rightarrow> jid \<Rightarrow> node \<Rightarrow> data \<Rightarrow> 'w \<Rightarrow> (pyerr + 'r option) \<times> 'w" where
  "invoke ho a n dat w = (case ho of None \<Rightarrow> (Inr None, w) | Some h \<Rightarrow> h a n dat w)"

text \<open>
  The registry invariant established by \<open>plugin_init\<close> and kept by every registration:
  exactly the supported operations have a hierarchy and a default handler.
\<close>

definition registry_ok :: "('w, 'r) disco \<Rightarrow> bool" where
  "registry_ok st =
     (dom (handlers st) = set (disco_ops st) \<and> dom (default_handlers st) = set (disco_ops st))"

subsection \<open>Auxiliary notions for the statements\<close>

text \<open>
  The hierarchy after one registration, by the tier the arguments select; used to
  state what a registration and the restoring loop leave behind.
\<close>

definition tier_update ::
  "xmpp \<Rightarrow> jid option \<Rightarrow> node option \<Rightarrow> ('w, 'r) handler option \<Rightarrow> ('w, 'r) hierarchy
     \<Rightarrow> ('w, 'r) hierarchy" where
  "tier_update x jid node h t =
     (case (jid, node) of
        (None, None) \<Rightarrow> t\<lparr>h_global := h\<rparr>
      | (Some j, None) \<Rightarrow> t\<lparr>h_jid := (h_jid t)(j \<mapsto> h)\<rparr>
      | (None, Some n) \<Rightarrow> t\<lparr>h_node := (h_node t)((own_jid x, n) \<mapsto> h)\<rparr>
      | (Some j, Some n) \<Rightarrow> t\<lparr>h_node := (h_node t)((j, n) \<mapsto> h)\<rparr>)"

subsection \<open>A concrete configuration\<close>

text \<open>
  A client-mode stream, handlers that answer with a result tagged by a string, a
  handler that raises, static handlers that use the store for \<open>add_item\<close>, and an
  incoming info query.
\<close>

definition example_xmpp :: xmpp where
  "example_xmpp =
     \<lparr>is_component = False,
      boundjid = \<lparr>full = ''bot@example.org/home'', bare = ''bot@example.org''\<rparr>,
      xep_0059 = False\<rparr>"

definition tag_handler :: "string \<Rightarrow> ('w, disco_info) handler" where
  "tag_handler tag j n dat w = (Inr (Some \<lparr>info_node = tag, identities = [], features = []\<rparr>), w)"

definition raising_handler :: "('w, 'r) handler" where
  "raising_handler j n dat w = (Inl (HandlerError ''boom''), w)"

definition example_static :: "string \<Rightarrow> (store, disco_info) handler" where
  "example_static op = (if op = ''add_item'' then store_add_item else tag_handler op)"

definition example_iq :: iq where
  "example_iq =
     \<lparr>iq_type = ''get'',
      iq_from = \<lparr>full = ''peer@example.net/desk'', bare = ''peer@example.net''\<rparr>,
      iq_to = \<lparr>full = ''bot@example.org/home'', bare = ''bot@example.org''\<rparr>,
      query_node = []\<rparr>"

definition empty_store :: store where
  "empty_store = (\<lambda>_. [])"

definition example_registry :: "(store, disco_info) disco" where
  "example_registry = plugin_init example_xmpp example_static"

text \<open>
  Three registries made from it by registration: a per-scope handler at the root of the
  own bare address; a global handler G, a per-address handler A and a per-scope handler
  S; and a global \<open>get_info\<close> handler that answers with an info result that has an empty
  node, no identities and no features.
\<close>

definition example_rooted :: "(store, disco_info) disco" where
  "example_rooted =
     snd (set_node_handler example_registry ''get_info'' (Some ''bot@example.org'') (Some [])
            (Some (tag_handler ''root'')))"

definition example_overridden :: "(store, disco_info) disco" where
  "example_overridden =
     snd (set_node_handler
            (snd (set_node_handler
                    (snd (set_node_handler example_registry ''get_info'' None None
                            (Some (tag_handler ''G''))))
                    ''get_info'' (Some ''shop@example.org'') None (Some (tag_handler ''A''))))
            ''get_info'' (Some ''shop@example.org'') (Some ''n'') (Some (tag_handler ''S'')))"

definition example_blank :: "(store, disco_info) disco" where
  "example_blank =
     snd (set_node_handler example_registry ''get_info'' None None (Some (tag_handler [])))"

section \<open>Properties\<close>

subsection \<open>Initialisation and the registry invariant\<close>

lemma registry_ok_hierarchy:
  "registry_ok st \<Longrightarrow> op \<in> set (disco_ops st) \<Longrightarrow> \<exists>t. handlers st op = Some t"
  by (auto simp: registry_ok_def)

lemma foldl_add_disco_op_fields:
  "xmpp (foldl (\<lambda>st op. add_disco_op st op (f op)) st ops) = xmpp st \<and>
   disco_ops (foldl (\<lambda>st op. add_disco_op st op (f op)) st ops) = disco_ops st"
  by (induction ops arbitrary: st) (simp_all add: add_disco_op_def)

lemma foldl_add_disco_op_handlers:
  "handlers (foldl (\<lambda>st op. add_disco_op st op (f op)) st ops) op =
     (if op \<in> set ops
      then Some \<lparr>h_global = f op, h_jid = Map.empty, h_node = Map.empty\<rparr>
      else handlers st op)"
  by (induction ops arbitrary: st) (simp_all add: add_disco_op_def)

lemma foldl_add_disco_op_defaults:
  "default_handlers (foldl (\<lambda>st op. add_disco_op st op (f op)) st ops) op =
     (if op \<in> set ops then Some (f op) else default_handlers st op)"
  by (induction ops arbitrary: st) (simp_all add: add_disco_op_def)

lemma plugin_init_xmpp: "xmpp (plugin_init x static) = x"
  by (simp add: plugin_init_def foldl_add_disco_op_fields)

lemma plugin_init_disco_ops: "disco_ops (plugin_init x static) = all_disco_ops"
  by (simp add: plugin_init_def foldl_add_disco_op_fields)

lemma plugin_init_handlers:
  "handlers (plugin_init x static) op =
     (if op \<in> set all_disco_ops
      then Some \<lparr>h_global = Some (static op), h_jid = Map.empty, h_node = Map.empty\<rparr>
      else None)"
  by (simp add: plugin_init_def foldl_add_disco_op_handlers)

lemma plugin_init_defaults:
  "default_handlers (plugin_init x static) op =
     (if op \<in> set all_disco_ops then Some (Some (static op)) else None)"
  by (simp add: plugin_init_def foldl_add_disco_op_defaults)

lemma plugin_init_ok: "registry_ok (plugin_init x static)"
  by (auto simp: registry_ok_def plugin_init_disco_ops plugin_init_handlers plugin_init_defaults
      dom_def)

lemma set_node_handler_known:
  assumes "op \<in> set (disco_ops st)" and "handlers st op = Some t"
  shows "set_node_handler st op jid node h =
           (Inr (), st\<lparr>handlers := (handlers st)(op \<mapsto> tier_update (xmpp st) jid node h t)\<rparr>)"
  using assms by (simp add: set_node_handler_def tier_update_def split: option.splits)

lemma registry_ok_update:
  assumes "registry_ok st" and "handlers st op = Some t"
  shows "registry_ok (st\<lparr>handlers := (handlers st)(op \<mapsto> t')\<rparr>)"
  using assms by (auto simp: registry_ok_def)

lemma set_node_handler_ok:
  assumes "registry_ok st"
  shows "\<exists>st'. set_node_handler st op jid node h = (Inr (), st') \<and> registry_ok st' \<and>
           xmpp st' = xmpp st \<and> disco_ops st' = disco_ops st \<and>
           default_handlers st' = default_handlers st"
proof (cases "op \<in> set (disco_ops st)")
  case True
  from registry_ok_hierarchy [OF assms True] obtain t where t: "handlers st op = Some t" ..
  from registry_ok_update [OF assms t] show ?thesis
    by (simp add: set_node_handler_known [OF True t])
next
  case False
  with assms show ?thesis by (simp add: set_node_handler_def)
qed

lemma registry_ok_default:
  "registry_ok st \<Longrightarrow> op \<in> set (disco_ops st) \<Longrightarrow> \<exists>d. default_handlers st op = Some d"
  by (auto simp: registry_ok_def)

lemma tier_update_twice:
  "tier_update x jid node h (tier_update x jid node h' t) = tier_update x jid node h t"
  by (simp add: tier_update_def split: option.splits)

lemma restore_loop_known:
  assumes "registry_ok st" and "set ops \<subseteq> set (disco_ops st)"
  shows "\<exists>st'. restore_loop st jid node ops = (Inr (), st') \<and> registry_ok st' \<and>
           xmpp st' = xmpp st \<and> disco_ops st' = disco_ops st \<and>
           default_handlers st' = default_handlers st \<and>
           (\<forall>op. handlers st' op =
              (if op \<in> set ops
               then map_option (tier_update (xmpp st) jid node (the (default_handlers st op)))
                      (handlers st op)
               else handlers st op))"
  using assms
proof (induction ops arbitrary: st)
  case Nil
  then show ?case by simp
next
  case (Cons a ops)
  from Cons.prems have mem: "a \<in> set (disco_ops st)" by simp
  from registry_ok_hierarchy [OF Cons.prems(1) mem] obtain t where t: "handlers st a = Some t" ..
  from registry_ok_default [OF Cons.prems(1) mem] obtain d where d: "default_handlers st a = Some d" ..
  define st2 where "st2 = st\<lparr>handlers := (handlers st)(a \<mapsto> tier_update (xmpp st) jid node d t)\<rparr>"
  have step: "restore_loop st jid node (a # ops) = restore_loop st2 jid node ops"
    using mem t d
    by (simp add: del_node_handler_def set_node_handler_known tier_update_twice st2_def)
  have ok2: "registry_ok st2"
    unfolding st2_def using Cons.prems(1) t by (rule registry_ok_update)
  have sub2: "set ops \<subseteq> set (disco_ops st2)"
    using Cons.prems(2) by (simp add: st2_def)
  from Cons.IH [OF ok2 sub2] obtain st' where
    r: "restore_loop st2 jid node ops = (Inr (), st')" and ok': "registry_ok st'" and
    f: "xmpp st' = xmpp st2" "disco_ops st' = disco_ops st2"
       "default_handlers st' = default_handlers st2" and
    h: "\<And>op. handlers st' op =
              (if op \<in> set ops
               then map_option (tier_update (xmpp st2) jid node (the (default_handlers st2 op)))
                      (handlers st2 op)
               else handlers st2 op)"
    by blast
  have "\<forall>op. handlers st' op =
              (if op \<in> set (a # ops)
               then map_option (tier_update (xmpp st) jid node (the (default_handlers st op)))
                      (handlers st op)
               else handlers st op)"
    using t d by (simp add: h st2_def tier_update_twice)
  with r ok' f step show ?case by (simp add: st2_def)
qed

lemma set_node_handler_snd_ok:
  "registry_ok st \<Longrightarrow> registry_ok (snd (set_node_handler st op jid node h))"
  using set_node_handler_ok [of st op jid node h] by auto

lemma set_node_handler_snd_ops:
  "registry_ok st \<Longrightarrow> disco_ops (snd (set_node_handler st op jid node h)) = disco_ops st"
  using set_node_handler_ok [of st op jid node h] by auto

lemma set_node_handler_snd_xmpp:
  "registry_ok st \<Longrightarrow> xmpp (snd (set_node_handler st op jid node h)) = xmpp st"
  using set_node_handler_ok [of st op jid node h] by auto

lemma set_node_handler_snd_defaults:
  "registry_ok st \<Longrightarrow>
     default_handlers (snd (set_node_handler st op jid node h)) = default_handlers st"
  using set_node_handler_ok [of st op jid node h] by auto

lemma set_node_handler_snd_handlers:
  assumes "op \<in> set (disco_ops st)" and "handlers st op = Some t"
  shows "handlers (snd (set_node_handler st op jid node h)) op
           = Some (tier_update (xmpp st) jid node h t)"
  by (simp add: set_node_handler_known [OF assms])

subsection \<open>The concrete configuration\<close>

lemma example_registry_ok: "registry_ok example_registry"
  unfolding example_registry_def by (rule plugin_init_ok)

lemma example_registry_ops: "disco_ops example_registry = all_disco_ops"
  by (simp add: example_registry_def plugin_init_disco_ops)

lemma example_registry_xmpp: "xmpp example_registry = example_xmpp"
  by (simp add: example_registry_def plugin_init_xmpp)

lemma get_info_supported: "''get_info'' \<in> set all_disco_ops"
  by (simp add: all_disco_ops_def)

lemma get_items_supported: "''get_items'' \<in> set all_disco_ops"
  by (simp add: all_disco_ops_def)

lemma add_item_supported: "''add_item'' \<in> set all_disco_ops"
  by (simp add: all_disco_ops_def)

lemma example_registry_get_info:
  "handlers example_registry ''get_info'' =
     Some \<lparr>h_global = Some (tag_handler ''get_info''), h_jid = Map.empty, h_node = Map.empty\<rparr>"
  by (simp add: example_registry_def plugin_init_handlers get_info_supported example_static_def)

lemma example_registry_get_items:
  "handlers example_registry ''get_items'' =
     Some \<lparr>h_global = Some (tag_handler ''get_items''), h_jid = Map.empty, h_node = Map.empty\<rparr>"
  by (simp add: example_registry_def plugin_init_handlers get_items_supported example_static_def)

lemma example_registry_add_item:
  "handlers example_registry ''add_item'' =
     Some \<lparr>h_global = Some store_add_item, h_jid = Map.empty, h_node = Map.empty\<rparr>"
  by (simp add: example_registry_def plugin_init_handlers add_item_supported example_static_def)

lemma example_registry_cleared:
  "handlers (snd (del_node_handler example_registry ''get_info'' None None)) ''get_info'' =
     Some \<lparr>h_global = None, h_jid = Map.empty, h_node = Map.empty\<rparr>"
  by (simp add: del_node_handler_def set_node_handler_def example_registry_ops
      get_info_supported example_registry_get_info)

lemma example_registry_cleared_xmpp:
  "xmpp (snd (del_node_handler example_registry ''get_info'' None None)) = example_xmpp"
  by (simp add: del_node_handler_def set_node_handler_def example_registry_ops
      get_info_supported example_registry_get_info example_registry_xmpp)

lemma example_registry_default:
  "default_handlers example_registry ''get_info'' = Some (Some (tag_handler ''get_info''))"
  by (simp add: example_registry_def plugin_init_defaults get_info_supported example_static_def)

lemma example_rooted_ok: "registry_ok example_rooted"
  unfolding example_rooted_def by (rule set_node_handler_snd_ok [OF example_registry_ok])

lemma example_rooted_ops: "disco_ops example_rooted = all_disco_ops"
  by (simp add: example_rooted_def set_node_handler_snd_ops example_registry_ok
      example_registry_ops)

lemma example_rooted_xmpp: "xmpp example_rooted = example_xmpp"
  by (simp add: example_rooted_def set_node_handler_snd_xmpp example_registry_ok
      example_registry_xmpp)

lemma example_rooted_get_info:
  "handlers example_rooted ''get_info'' =
     Some \<lparr>h_global = Some (tag_handler ''get_info''), h_jid = Map.empty,
           h_node = [(''bot@example.org'', []) \<mapsto> Some (tag_handler ''root'')]\<rparr>"
  by (simp add: example_rooted_def set_node_handler_snd_handlers example_registry_ops
      get_info_supported example_registry_get_info tier_update_def)

lemma example_overridden_ok: "registry_ok example_overridden"
  unfolding example_overridden_def
  by (intro set_node_handler_snd_ok example_registry_ok)

lemma example_overridden_ops: "disco_ops example_overridden = all_disco_ops"
  by (simp add: example_overridden_def set_node_handler_snd_ops set_node_handler_snd_ok
      example_registry_ok example_registry_ops)

lemma example_overridden_get_info:
  "handlers example_overridden ''get_info'' =
     Some \<lparr>h_global = Some (tag_handler ''G''),
           h_jid = [''shop@example.org'' \<mapsto> Some (tag_handler ''A'')],
           h_node = [(''shop@example.org'', ''n'') \<mapsto> Some (tag_handler ''S'')]\<rparr>"
  by (simp add: example_overridden_def set_node_handler_snd_handlers set_node_handler_snd_ops
      set_node_handler_snd_ok example_registry_ok example_registry_ops get_info_supported
      example_registry_get_info tier_update_def)

lemma example_overridden_default:
  "default_handlers example_overridden ''get_info'' = Some (Some (tag_handler ''get_info''))"
  by (simp add: example_overridden_def set_node_handler_snd_defaults set_node_handler_snd_ok
      example_registry_ok example_registry_default)

lemma example_blank_xmpp: "xmpp example_blank = example_xmpp"
  by (simp add: example_blank_def set_node_handler_snd_xmpp example_registry_ok
      example_registry_xmpp)

lemma example_blank_get_info:
  "handlers example_blank ''get_info'' =
     Some \<lparr>h_global = Some (tag_handler []), h_jid = Map.empty, h_node = Map.empty\<rparr>"
  by (simp add: example_blank_def set_node_handler_snd_handlers example_registry_ops
      get_info_supported example_registry_get_info tier_update_def)

lemma example_blank_run:
  "run_node_handler example_blank ''get_info''
     (Some (if is_component (xmpp example_blank) then full (iq_to example_iq)
            else bare (iq_to example_iq)))
     (Some (query_node example_iq)) (Stanza example_iq) empty_store
   = (Inr (Some \<lparr>info_node = [], identities = [], features = []\<rparr>), empty_store)"
  by (simp add: run_node_handler_def example_blank_get_info tag_handler_def)

subsection \<open>Handler resolution\<close>

lemma run_node_handler_known:
  assumes "handlers st op = Some t"
  shows "run_node_handler st op (Some a) (Some n) dat w = invoke (spec_resolve t a n) a n dat w"
  using assms
  by (simp add: run_node_handler_def spec_resolve_def spec_tiers_def tier_entry_def invoke_def
      split: option.splits)

lemma run_node_handler_normalised:
  "run_node_handler st op jid node dat w =
     run_node_handler st op (Some (case jid of None \<Rightarrow> own_jid (xmpp st) | Some a \<Rightarrow> a))
       (Some (case node of None \<Rightarrow> [] | Some m \<Rightarrow> m)) dat w"
  by (simp add: run_node_handler_def)

lemma run_node_handler_resolved:
  assumes "handlers st op = Some t"
  shows "run_node_handler st op jid node dat w =
           invoke (spec_resolve t (case jid of None \<Rightarrow> own_jid (xmpp st) | Some a \<Rightarrow> a)
                     (case node of None \<Rightarrow> [] | Some m \<Rightarrow> m))
             (case jid of None \<Rightarrow> own_jid (xmpp st) | Some a \<Rightarrow> a)
             (case node of None \<Rightarrow> [] | Some m \<Rightarrow> m) dat w"
  using run_node_handler_known [OF assms] by (simp add: run_node_handler_normalised [of st op jid node])

lemma spec_resolve_None:
  "(spec_resolve t a n = None) =
     (tier_entry (h_node t) (a, n) = None \<and> tier_entry (h_jid t) a = None \<and> h_global t = None)"
  by (simp add: spec_resolve_def spec_tiers_def tier_entry_def
      split: option.splits)

text \<open>
  Claim C1. For a supported operation and a scope (address, node), dispatch calls the
  handler that the specification's resolution rule selects: the per-scope handler for
  exactly (address, node) if that tier holds one, else the per-address handler, else the
  global handler; a tier that was never set or was cleared to nil is skipped; and
  nothing is resolved exactly when all three tiers, the global one included, hold no
  handler, in which case dispatch returns nil. The four cases are also stated on the
  hierarchy itself.
\<close>

theorem resolve_most_specific:
  assumes "registry_ok st" and "op \<in> set (disco_ops st)"
  shows "\<exists>t. handlers st op = Some t \<and>
           run_node_handler st op (Some a) (Some n) dat w = invoke (spec_resolve t a n) a n dat w \<and>
           ((spec_resolve t a n = None) =
              (tier_entry (h_node t) (a, n) = None \<and> tier_entry (h_jid t) a = None \<and>
               h_global t = None)) \<and>
           (\<forall>S. h_node t (a, n) = Some (Some S) \<longrightarrow>
              run_node_handler st op (Some a) (Some n) dat w = S a n dat w) \<and>
           (\<forall>A. tier_entry (h_node t) (a, n) = None \<and> h_jid t a = Some (Some A) \<longrightarrow>
              run_node_handler st op (Some a) (Some n) dat w = A a n dat w) \<and>
           (\<forall>G. tier_entry (h_node t) (a, n) = None \<and> tier_entry (h_jid t) a = None \<and>
                h_global t = Some G \<longrightarrow>
              run_node_handler st op (Some a) (Some n) dat w = G a n dat w) \<and>
           (tier_entry (h_node t) (a, n) = None \<and> tier_entry (h_jid t) a = None \<and>
            h_global t = None \<longrightarrow>
              run_node_handler st op (Some a) (Some n) dat w = (Inr None, w))"
proof -
  from registry_ok_hierarchy [OF assms] obtain t where t: "handlers st op = Some t" ..
  have "\<forall>S. h_node t (a, n) = Some (Some S) \<longrightarrow>
              run_node_handler st op (Some a) (Some n) dat w = S a n dat w"
    using t by (simp add: run_node_handler_def)
  moreover have "\<forall>A. tier_entry (h_node t) (a, n) = None \<and> h_jid t a = Some (Some A) \<longrightarrow>
              run_node_handler st op (Some a) (Some n) dat w = A a n dat w"
    using t by (auto simp: run_node_handler_def tier_entry_def split: option.splits)
  moreover have "\<forall>G. tier_entry (h_node t) (a, n) = None \<and> tier_entry (h_jid t) a = None \<and>
                h_global t = Some G \<longrightarrow>
              run_node_handler st op (Some a) (Some n) dat w = G a n dat w"
    using t by (auto simp: run_node_handler_def tier_entry_def split: option.splits)
  moreover have "tier_entry (h_node t) (a, n) = None \<and> tier_entry (h_jid t) a = None \<and>
            h_global t = None \<longrightarrow>
              run_node_handler st op (Some a) (Some n) dat w = (Inr None, w)"
    using t by (auto simp: run_node_handler_def tier_entry_def split: option.splits)
  ultimately show ?thesis
    using t run_node_handler_known [OF t] spec_resolve_None by blast
qed

theorem resolve_most_specific_witness:
  "registry_ok example_overridden \<and> ''get_info'' \<in> set (disco_ops example_overridden) \<and>
   run_node_handler example_overridden ''get_info'' (Some ''shop@example.org'') (Some ''n'')
       (Kwargs Map.empty) empty_store
     = (Inr (Some \<lparr>info_node = ''S'', identities = [], features = []\<rparr>), empty_store) \<and>
   run_node_handler example_overridden ''get_info'' (Some ''shop@example.org'') (Some ''other'')
       (Kwargs Map.empty) empty_store
     = (Inr (Some \<lparr>info_node = ''A'', identities = [], features = []\<rparr>), empty_store) \<and>
   run_node_handler example_overridden ''get_info'' (Some ''peer@example.net'') (Some ''n'')
       (Kwargs Map.empty) empty_store
     = (Inr (Some \<lparr>info_node = ''G'', identities = [], features = []\<rparr>), empty_store)"
proof -
  have mem: "''get_info'' \<in> set (disco_ops example_overridden)"
    by (simp add: example_overridden_ops get_info_supported)
  have s: "run_node_handler example_overridden ''get_info'' (Some ''shop@example.org'') (Some ''n'')
       (Kwargs Map.empty) empty_store
     = (Inr (Some \<lparr>info_node = ''S'', identities = [], features = []\<rparr>), empty_store)"
    using resolve_most_specific [OF example_overridden_ok mem, where a = "''shop@example.org''"
        and n = "''n''" and dat = "Kwargs Map.empty" and w = empty_store]
    by (auto simp: example_overridden_get_info spec_resolve_def spec_tiers_def tier_entry_def
        invoke_def tag_handler_def)
  have a: "run_node_handler example_overridden ''get_info'' (Some ''shop@example.org'') (Some ''other'')
       (Kwargs Map.empty) empty_store
     = (Inr (Some \<lparr>info_node = ''A'', identities = [], features = []\<rparr>), empty_store)"
    using resolve_most_specific [OF example_overridden_ok mem, where a = "''shop@example.org''"
        and n = "''other''" and dat = "Kwargs Map.empty" and w = empty_store]
    by (auto simp: example_overridden_get_info spec_resolve_def spec_tiers_def tier_entry_def
        invoke_def tag_handler_def)
  have g: "run_node_handler example_overridden ''get_info'' (Some ''peer@example.net'') (Some ''n'')
       (Kwargs Map.empty) empty_store
     = (Inr (Some \<lparr>info_node = ''G'', identities = [], features = []\<rparr>), empty_store)"
    using resolve_most_specific [OF example_overridden_ok mem, where a = "''peer@example.net''"
        and n = "''n''" and dat = "Kwargs Map.empty" and w = empty_store]
    by (auto simp: example_overridden_get_info spec_resolve_def spec_tiers_def tier_entry_def
        invoke_def tag_handler_def)
  from s a g example_overridden_ok mem show ?thesis by simp
qed

text \<open>
  The scenario of the specification on a freshly initialised registry: a global handler
  G, a per-address handler A for X and a per-scope handler S for (X, n); and a
  per-scope handler that is removed again gives way to the per-address one.
\<close>

lemma handler_precedence_scenario:
  fixes G A S :: "('w, 'r) handler"
  assumes "op \<in> set all_disco_ops"
    and "set_node_handler (plugin_init x static) op None None (Some G) = (r1, st1)"
    and "set_node_handler st1 op (Some X) None (Some A) = (r2, st2)"
    and "set_node_handler st2 op (Some X) (Some n) (Some S) = (r3, st3)"
    and "other \<noteq> n" and "Y \<noteq> X"
  shows "run_node_handler st3 op (Some X) (Some n) dat w = S X n dat w"
    and "run_node_handler st3 op (Some X) (Some other) dat w = A X other dat w"
    and "run_node_handler st3 op (Some Y) (Some n) dat w = G Y n dat w"
  using assms
  by (auto simp: set_node_handler_def plugin_init_disco_ops plugin_init_handlers
      run_node_handler_def)

lemma cleared_tier_skipped:
  fixes A :: "('w, 'r) handler"
  assumes "op \<in> set all_disco_ops"
    and "set_node_handler (plugin_init x static) op (Some X) None (Some A) = (r1, st1)"
    and "set_node_handler st1 op (Some X) (Some n) (Some S) = (r2, st2)"
    and "del_node_handler st2 op (Some X) (Some n) = (r3, st3)"
  shows "run_node_handler st3 op (Some X) (Some n) dat w = A X n dat w"
  using assms
  by (auto simp: set_node_handler_def del_node_handler_def plugin_init_disco_ops
      plugin_init_handlers run_node_handler_def)

text \<open>
  Claim C9. For a supported operation, dispatch with no node looks the handler up under
  the empty node and calls it with the empty node: the per-scope tier is consulted at
  (address, empty string), and what the resolution rule selects there is what is called.
  Dispatch with no address looks up and calls under the process's own bound address,
  full in component mode and bare in client mode. So a call with no node equals the
  call with the empty node, and a call with no address equals the call with the own
  address.
\<close>

theorem nil_normalisation:
  assumes "registry_ok st" and "op \<in> set (disco_ops st)"
  shows "\<exists>t. handlers st op = Some t \<and>
           run_node_handler st op (Some a) None dat w = invoke (spec_resolve t a []) a [] dat w \<and>
           run_node_handler st op None (Some n) dat w =
             invoke (spec_resolve t
                       (if is_component (xmpp st) then full (boundjid (xmpp st))
                        else bare (boundjid (xmpp st))) n)
               (if is_component (xmpp st) then full (boundjid (xmpp st))
                else bare (boundjid (xmpp st))) n dat w \<and>
           run_node_handler st op None None dat w =
             invoke (spec_resolve t
                       (if is_component (xmpp st) then full (boundjid (xmpp st))
                        else bare (boundjid (xmpp st))) [])
               (if is_component (xmpp st) then full (boundjid (xmpp st))
                else bare (boundjid (xmpp st))) [] dat w \<and>
           (\<forall>S. h_node t (a, []) = Some (Some S) \<longrightarrow>
              run_node_handler st op (Some a) None dat w = S a [] dat w) \<and>
           run_node_handler st op jid None dat w = run_node_handler st op jid (Some []) dat w \<and>
           run_node_handler st op None node dat w =
             run_node_handler st op
               (Some (if is_component (xmpp st) then full (boundjid (xmpp st))
                      else bare (boundjid (xmpp st)))) node dat w"
proof -
  from registry_ok_hierarchy [OF assms] obtain t where t: "handlers st op = Some t" ..
  have "run_node_handler st op (Some a) None dat w = invoke (spec_resolve t a []) a [] dat w"
    by (simp add: run_node_handler_resolved [OF t])
  moreover have "run_node_handler st op None (Some n) dat w =
             invoke (spec_resolve t
                       (if is_component (xmpp st) then full (boundjid (xmpp st))
                        else bare (boundjid (xmpp st))) n)
               (if is_component (xmpp st) then full (boundjid (xmpp st))
                else bare (boundjid (xmpp st))) n dat w"
    by (simp add: run_node_handler_resolved [OF t] own_jid_def)
  moreover have "run_node_handler st op None None dat w =
             invoke (spec_resolve t
                       (if is_component (xmpp st) then full (boundjid (xmpp st))
                        else bare (boundjid (xmpp st))) [])
               (if is_component (xmpp st) then full (boundjid (xmpp st))
                else bare (boundjid (xmpp st))) [] dat w"
    by (simp add: run_node_handler_resolved [OF t] own_jid_def)
  moreover have "\<forall>S. h_node t (a, []) = Some (Some S) \<longrightarrow>
              run_node_handler st op (Some a) None dat w = S a [] dat w"
    using t by (simp add: run_node_handler_def)
  moreover have "run_node_handler st op jid None dat w = run_node_handler st op jid (Some []) dat w"
    by (simp add: run_node_handler_def)
  moreover have "run_node_handler st op None node dat w =
             run_node_handler st op
               (Some (if is_component (xmpp st) then full (boundjid (xmpp st))
                      else bare (boundjid (xmpp st)))) node dat w"
    by (simp add: run_node_handler_def own_jid_def)
  ultimately show ?thesis using t by blast
qed

theorem nil_normalisation_witness:
  "registry_ok example_rooted \<and> ''get_info'' \<in> set (disco_ops example_rooted) \<and>
   run_node_handler example_rooted ''get_info'' None None (Kwargs Map.empty) empty_store
     = (Inr (Some \<lparr>info_node = ''root'', identities = [], features = []\<rparr>), empty_store) \<and>
   run_node_handler example_rooted ''get_info'' (Some ''bot@example.org'') None
       (Kwargs Map.empty) empty_store
     = (Inr (Some \<lparr>info_node = ''root'', identities = [], features = []\<rparr>), empty_store)"
proof -
  have mem: "''get_info'' \<in> set (disco_ops example_rooted)"
    by (simp add: example_rooted_ops get_info_supported)
  from nil_normalisation [OF example_rooted_ok mem,
      where a = "''bot@example.org''" and n = "[]" and jid = None and node = None
        and dat = "Kwargs Map.empty" and w = empty_store]
  obtain t where t: "handlers example_rooted ''get_info'' = Some t"
    and e1: "run_node_handler example_rooted ''get_info'' (Some ''bot@example.org'') None
               (Kwargs Map.empty) empty_store
             = invoke (spec_resolve t ''bot@example.org'' []) ''bot@example.org'' []
                 (Kwargs Map.empty) empty_store"
    and e2: "run_node_handler example_rooted ''get_info'' None None (Kwargs Map.empty) empty_store
             = invoke (spec_resolve t
                         (if is_component (xmpp example_rooted)
                          then full (boundjid (xmpp example_rooted))
                          else bare (boundjid (xmpp example_rooted))) [])
                 (if is_component (xmpp example_rooted)
                  then full (boundjid (xmpp example_rooted))
                  else bare (boundjid (xmpp example_rooted))) []
                 (Kwargs Map.empty) empty_store"
    by blast
  from t have t': "t = \<lparr>h_global = Some (tag_handler ''get_info''), h_jid = Map.empty,
           h_node = [(''bot@example.org'', []) \<mapsto> Some (tag_handler ''root'')]\<rparr>"
    by (simp add: example_rooted_get_info)
  have r: "spec_resolve t ''bot@example.org'' [] = Some (tag_handler ''root'')"
    by (simp add: t' spec_resolve_def spec_tiers_def tier_entry_def)
  from e1 e2 r example_rooted_ok mem show ?thesis
    by (simp add: example_rooted_xmpp example_xmpp_def invoke_def tag_handler_def)
qed

subsection \<open>Operations outside the supported set\<close>

text \<open>
  Claim C5, as amended. For an operation name outside the supported set, registration
  returns normally and leaves the registry as it was (the name is ignored, no error is
  raised), and dispatch fails at once with \<open>KeyError\<close>, before any handler runs and
  without touching the store.
\<close>

theorem unknown_operation:
  assumes "registry_ok st" and "op \<notin> set (disco_ops st)"
  shows "set_node_handler st op jid node h = (Inr (), st) \<and>
         run_node_handler st op jid node dat w = (Inl (KeyError op), w)"
proof -
  from assms have "handlers st op = None" by (auto simp: registry_ok_def)
  with assms(2) show ?thesis by (simp add: set_node_handler_def run_node_handler_def)
qed

theorem unknown_operation_witness:
  "registry_ok (plugin_init example_xmpp example_static) \<and>
   ''get_everything'' \<notin> set (disco_ops (plugin_init example_xmpp example_static)) \<and>
   run_node_handler (plugin_init example_xmpp example_static) ''get_everything'' None None
       (Kwargs Map.empty) empty_store = (Inl (KeyError ''get_everything''), empty_store)"
proof -
  have ok: "registry_ok (plugin_init example_xmpp example_static)" by (rule plugin_init_ok)
  have nmem: "''get_everything'' \<notin> set (disco_ops (plugin_init example_xmpp example_static))"
    by (simp add: plugin_init_disco_ops all_disco_ops_def)
  from unknown_operation [OF ok nmem] ok nmem show ?thesis by simp
qed

text \<open>
  Claim C5 as stated fails: registering a handler under an unknown operation name on a
  freshly initialised registry raises nothing and returns the registry unchanged.
\<close>

theorem unknown_operation_counterexample:
  "set_node_handler (plugin_init example_xmpp example_static) ''get_everything''
     None None (Some (tag_handler ''mine''))
   = (Inr (), plugin_init example_xmpp example_static)"
  by (simp add: set_node_handler_def plugin_init_disco_ops all_disco_ops_def)

subsection \<open>Default injection\<close>

lemma fix_default_info_total: "\<exists>i'. fix_default_info x (Some i) = Inr i'"
  by (simp add: fix_default_info_def info_add_identity_def)

text \<open>
  Claim C2. Default injection always returns an info result with the node it was given.
  With an empty node and no identity, the result has exactly one identity: the generic
  component identity in component mode, the client identity otherwise; identities that
  are present are kept. With an empty node and no feature, the result has exactly one
  feature, the discovery-info namespace; features that are present are kept. With a
  non-empty node the result is the argument, unchanged.
\<close>

theorem default_injection:
  "\<exists>i'. fix_default_info x (Some i) = Inr i' \<and> info_node i' = info_node i \<and>
     (info_node i = [] \<and> identities i = [] \<longrightarrow>
        identities i' = [if is_component x then (''component'', ''generic'', None, None)
                         else (''client'', ''bot'', None, None)]) \<and>
     (info_node i = [] \<and> identities i \<noteq> [] \<longrightarrow> identities i' = identities i) \<and>
     (info_node i = [] \<and> features i = [] \<longrightarrow> features i' = [disco_info_namespace]) \<and>
     (info_node i = [] \<and> features i \<noteq> [] \<longrightarrow> features i' = features i) \<and>
     (info_node i \<noteq> [] \<longrightarrow> i' = i)"
  by (simp add: fix_default_info_def info_add_identity_def info_add_feature_def)

theorem default_injection_witness:
  "fix_default_info example_xmpp (Some \<lparr>info_node = [], identities = [], features = []\<rparr>)
     = Inr \<lparr>info_node = [], identities = [(''client'', ''bot'', None, None)],
            features = [''http://jabber.org/protocol/disco#info'']\<rparr> \<and>
   fix_default_info example_xmpp (Some \<lparr>info_node = ''n'', identities = [], features = []\<rparr>)
     = Inr \<lparr>info_node = ''n'', identities = [], features = []\<rparr>"
proof -
  from default_injection [of example_xmpp "\<lparr>info_node = [], identities = [], features = []\<rparr>"]
  have a: "fix_default_info example_xmpp (Some \<lparr>info_node = [], identities = [], features = []\<rparr>)
     = Inr \<lparr>info_node = [], identities = [(''client'', ''bot'', None, None)],
            features = [''http://jabber.org/protocol/disco#info'']\<rparr>"
    by (auto simp: example_xmpp_def disco_info_namespace_def)
  from default_injection [of example_xmpp "\<lparr>info_node = ''n'', identities = [], features = []\<rparr>"]
  have b: "fix_default_info example_xmpp (Some \<lparr>info_node = ''n'', identities = [], features = []\<rparr>)
     = Inr \<lparr>info_node = ''n'', identities = [], features = []\<rparr>"
    by auto
  from a b show ?thesis by simp
qed

lemma get_info_local:
  assumes "local \<or> jid = None"
  shows "get_info st jid node local kwargs w =
           (case run_node_handler st ''get_info'' jid node (Kwargs kwargs) w of
              (Inl e, w') \<Rightarrow> (Inl e, w')
            | (Inr info, w') \<Rightarrow>
                (case fix_default_info (xmpp st) info of
                   Inl e \<Rightarrow> (Inl e, w')
                 | Inr i \<Rightarrow> (Inr (Local i), w')))"
  using assms by (auto simp: get_info_def Let_def split: option.splits)

subsection \<open>Restoring the defaults\<close>

lemma restore_defaults_known:
  assumes "registry_ok st" and "set (case hs of None \<Rightarrow> disco_ops st | Some l \<Rightarrow> l) \<subseteq> set (disco_ops st)"
  shows "\<exists>st'. restore_defaults st jid node hs = (Inr (), st') \<and> registry_ok st' \<and>
           xmpp st' = xmpp st \<and> disco_ops st' = disco_ops st \<and>
           default_handlers st' = default_handlers st \<and>
           (\<forall>op. handlers st' op =
              (if op \<in> set (case hs of None \<Rightarrow> disco_ops st | Some l \<Rightarrow> l)
               then map_option (tier_update (xmpp st) jid node (the (default_handlers st op)))
                      (handlers st op)
               else handlers st op))"
  unfolding restore_defaults_def using assms by (rule restore_loop_known)

text \<open>
  Claim C3. Start from a registry that satisfies the invariant, with a default handler D
  for a supported operation. Register a global handler G, then a per-address handler A
  for X, then restore the defaults for the scope (X, n). All three calls return
  normally; afterwards D sits at the per-scope tier of (X, n), so dispatch for (X, n)
  calls D although A is registered for X, and dispatch for (X, other), for any other node
  that has no per-scope handler of its own, still calls A.
\<close>

theorem restore_defaults_scope:
  assumes "registry_ok st" and "op \<in> set (disco_ops st)"
    and "default_handlers st op = Some (Some D)"
    and "set_node_handler st op None None (Some G) = (r1, st1)"
    and "set_node_handler st1 op (Some X) None (Some A) = (r2, st2)"
    and "restore_defaults st2 (Some X) (Some n) None = (r3, st3)"
    and "other \<noteq> n"
    and "\<exists>t. handlers st op = Some t \<and> tier_entry (h_node t) (X, other) = None"
  shows "r1 = Inr () \<and> r2 = Inr () \<and> r3 = Inr () \<and>
         run_node_handler st3 op (Some X) (Some n) dat w = D X n dat w \<and>
         run_node_handler st3 op (Some X) (Some other) dat w = A X other dat w \<and>
         (\<exists>t3. handlers st3 op = Some t3 \<and> h_node t3 (X, n) = Some (Some D) \<and>
               h_jid t3 X = Some (Some A) \<and> h_global t3 = Some G)"
proof -
  from assms(8) obtain t where t: "handlers st op = Some t"
    and free: "tier_entry (h_node t) (X, other) = None" by blast
  define t1 where "t1 = t\<lparr>h_global := Some G\<rparr>"
  define t2 where "t2 = t1\<lparr>h_jid := (h_jid t1)(X \<mapsto> Some A)\<rparr>"
  define t3 where "t3 = t2\<lparr>h_node := (h_node t2)((X, n) \<mapsto> Some D)\<rparr>"
  from assms(4) have s1: "r1 = Inr ()" "st1 = st\<lparr>handlers := (handlers st)(op \<mapsto> t1)\<rparr>"
    by (simp_all add: set_node_handler_known [OF assms(2) t] tier_update_def t1_def)
  have ok1: "registry_ok st1" unfolding s1(2) using assms(1) t by (rule registry_ok_update)
  have m1: "op \<in> set (disco_ops st1)" and h1: "handlers st1 op = Some t1"
    using assms(2) by (simp_all add: s1(2))
  from assms(5) have s2: "r2 = Inr ()" "st2 = st1\<lparr>handlers := (handlers st1)(op \<mapsto> t2)\<rparr>"
    by (simp_all add: set_node_handler_known [OF m1 h1] tier_update_def t2_def)
  have ok2: "registry_ok st2" unfolding s2(2) using ok1 h1 by (rule registry_ok_update)
  have m2: "op \<in> set (disco_ops st2)" and h2: "handlers st2 op = Some t2"
    and d2: "default_handlers st2 op = Some (Some D)"
    using assms(2,3) by (simp_all add: s2(2) s1(2))
  have sub: "set (case None of None \<Rightarrow> disco_ops st2 | Some l \<Rightarrow> l) \<subseteq> set (disco_ops st2)"
    by simp
  from restore_defaults_known [OF ok2 sub, of "Some X" "Some n"] obtain st' where
    r: "restore_defaults st2 (Some X) (Some n) None = (Inr (), st')" and
    h: "\<And>q. handlers st' q =
              (if q \<in> set (case None of None \<Rightarrow> disco_ops st2 | Some l \<Rightarrow> l)
               then map_option (tier_update (xmpp st2) (Some X) (Some n) (the (default_handlers st2 q)))
                      (handlers st2 q)
               else handlers st2 q)"
    by blast
  from r assms(6) have e3: "r3 = Inr ()" "st3 = st'" by simp_all
  have "handlers st3 op = Some t3"
    using m2 h2 d2 by (simp add: e3(2) h [of op] tier_update_def t3_def)
  with e3(1) have s3: "r3 = Inr ()" "handlers st3 op = Some t3" by simp_all
  have "run_node_handler st3 op (Some X) (Some n) dat w = D X n dat w"
    by (simp add: run_node_handler_def s3(2) t3_def)
  moreover have "run_node_handler st3 op (Some X) (Some other) dat w = A X other dat w"
    using free assms(7)
    by (auto simp: run_node_handler_def s3(2) t3_def t2_def t1_def tier_entry_def
        split: option.splits)
  moreover have "h_node t3 (X, n) = Some (Some D) \<and> h_jid t3 X = Some (Some A) \<and> h_global t3 = Some G"
    by (simp add: t3_def t2_def t1_def)
  ultimately show ?thesis using s1(1) s2(1) s3 by simp
qed

theorem restore_defaults_scope_witness:
  "registry_ok example_registry \<and> ''get_info'' \<in> set (disco_ops example_registry) \<and>
   default_handlers example_registry ''get_info'' = Some (Some (tag_handler ''get_info'')) \<and>
   ''other'' \<noteq> ''n'' \<and>
   run_node_handler
     (snd (restore_defaults
        (snd (set_node_handler
           (snd (set_node_handler example_registry ''get_info'' None None (Some (tag_handler ''G''))))
           ''get_info'' (Some ''shop@example.org'') None (Some (tag_handler ''A''))))
        (Some ''shop@example.org'') (Some ''n'') None))
     ''get_info'' (Some ''shop@example.org'') (Some ''n'') (Kwargs Map.empty) empty_store
   = (Inr (Some \<lparr>info_node = ''get_info'', identities = [], features = []\<rparr>), empty_store) \<and>
   run_node_handler
     (snd (restore_defaults
        (snd (set_node_handler
           (snd (set_node_handler example_registry ''get_info'' None None (Some (tag_handler ''G''))))
           ''get_info'' (Some ''shop@example.org'') None (Some (tag_handler ''A''))))
        (Some ''shop@example.org'') (Some ''n'') None))
     ''get_info'' (Some ''shop@example.org'') (Some ''other'') (Kwargs Map.empty) empty_store
   = (Inr (Some \<lparr>info_node = ''A'', identities = [], features = []\<rparr>), empty_store)"
proof -
  have mem: "''get_info'' \<in> set (disco_ops example_registry)"
    by (simp add: example_registry_ops get_info_supported)
  have dflt: "default_handlers example_registry ''get_info'' = Some (Some (tag_handler ''get_info''))"
    by (simp add: example_registry_def plugin_init_defaults get_info_supported example_static_def)
  have ne: "''other'' \<noteq> ''n''" by simp
  have free: "\<exists>t. handlers example_registry ''get_info'' = Some t \<and>
                 tier_entry (h_node t) (''shop@example.org'', ''other'') = None"
    by (simp add: example_registry_get_info tier_entry_def)
  from restore_defaults_scope [OF example_registry_ok mem dflt surjective_pairing
      surjective_pairing surjective_pairing ne free,
      where dat = "Kwargs Map.empty" and w = empty_store]
  show ?thesis using example_registry_ok mem dflt by (simp add: tag_handler_def)
qed

text \<open>
  Claim C8. Restoring the defaults with neither address nor node, for the listed
  supported operations (all of them when no list is given), returns normally; for every
  listed operation the hierarchy afterwards is the old one with only the global handler
  replaced by the operation's default handler, so the per-address and per-scope maps are
  as before and no per-scope entry is added; the hierarchies of the other operations and
  the default handlers are unchanged.
\<close>

theorem restore_defaults_global:
  assumes "registry_ok st"
    and "set (case hs of None \<Rightarrow> disco_ops st | Some l \<Rightarrow> l) \<subseteq> set (disco_ops st)"
  shows "\<exists>st'. restore_defaults st None None hs = (Inr (), st') \<and>
           default_handlers st' = default_handlers st \<and>
           (\<forall>op \<in> set (case hs of None \<Rightarrow> disco_ops st | Some l \<Rightarrow> l).
              \<exists>t d. handlers st op = Some t \<and> default_handlers st op = Some d \<and>
                    handlers st' op = Some (t\<lparr>h_global := d\<rparr>)) \<and>
           (\<forall>op. op \<notin> set (case hs of None \<Rightarrow> disco_ops st | Some l \<Rightarrow> l) \<longrightarrow>
              handlers st' op = handlers st op)"
proof -
  from restore_defaults_known [OF assms, of None None] obtain st' where
    r: "restore_defaults st None None hs = (Inr (), st')" and
    d: "default_handlers st' = default_handlers st" and
    h: "\<And>op. handlers st' op =
              (if op \<in> set (case hs of None \<Rightarrow> disco_ops st | Some l \<Rightarrow> l)
               then map_option (tier_update (xmpp st) None None (the (default_handlers st op)))
                      (handlers st op)
               else handlers st op)"
    by blast
  have "\<exists>t d. handlers st op = Some t \<and> default_handlers st op = Some d \<and>
                    handlers st' op = Some (t\<lparr>h_global := d\<rparr>)"
    if m: "op \<in> set (case hs of None \<Rightarrow> disco_ops st | Some l \<Rightarrow> l)" for op
  proof -
    from m assms(2) have mem: "op \<in> set (disco_ops st)" by blast
    from registry_ok_hierarchy [OF assms(1) mem] obtain t where t: "handlers st op = Some t" ..
    from registry_ok_default [OF assms(1) mem] obtain d where dd: "default_handlers st op = Some d" ..
    from m t dd show ?thesis by (simp add: h tier_update_def)
  qed
  with r d h show ?thesis by auto
qed

theorem restore_defaults_global_witness:
  "registry_ok example_overridden \<and>
   set (case Some [''get_info''] of None \<Rightarrow> disco_ops example_overridden | Some l \<Rightarrow> l)
     \<subseteq> set (disco_ops example_overridden) \<and>
   fst (restore_defaults example_overridden None None (Some [''get_info''])) = Inr () \<and>
   handlers (snd (restore_defaults example_overridden None None (Some [''get_info''])))
       ''get_info''
     = Some \<lparr>h_global = Some (tag_handler ''get_info''),
             h_jid = [''shop@example.org'' \<mapsto> Some (tag_handler ''A'')],
             h_node = [(''shop@example.org'', ''n'') \<mapsto> Some (tag_handler ''S'')]\<rparr>"
proof -
  have sub: "set (case Some [''get_info''] of None \<Rightarrow> disco_ops example_overridden | Some l \<Rightarrow> l)
     \<subseteq> set (disco_ops example_overridden)"
    by (simp add: example_overridden_ops get_info_supported)
  from restore_defaults_global [OF example_overridden_ok sub] obtain st' where
    r: "restore_defaults example_overridden None None (Some [''get_info'']) = (Inr (), st')" and
    h: "\<forall>op \<in> set (case Some [''get_info''] of None \<Rightarrow> disco_ops example_overridden | Some l \<Rightarrow> l).
          \<exists>t d. handlers example_overridden op = Some t \<and>
                default_handlers example_overridden op = Some d \<and>
                handlers st' op = Some (t\<lparr>h_global := d\<rparr>)"
    by blast
  have "''get_info'' \<in> set (case Some [''get_info''] of None \<Rightarrow> disco_ops example_overridden | Some l \<Rightarrow> l)"
    by simp
  with h have "\<exists>t d. handlers example_overridden ''get_info'' = Some t \<and>
                default_handlers example_overridden ''get_info'' = Some d \<and>
                handlers st' ''get_info'' = Some (t\<lparr>h_global := d\<rparr>)"
    by (rule bspec)
  then have "handlers st' ''get_info''
     = Some \<lparr>h_global = Some (tag_handler ''get_info''),
             h_jid = [''shop@example.org'' \<mapsto> Some (tag_handler ''A'')],
             h_node = [(''shop@example.org'', ''n'') \<mapsto> Some (tag_handler ''S'')]\<rparr>"
    by (auto simp: example_overridden_get_info example_overridden_default)
  with r example_overridden_ok sub show ?thesis by simp
qed

subsection \<open>Local queries\<close>

lemma run_node_handler_unresolved:
  assumes "handlers st op = Some t" and "spec_resolve t a n = None"
  shows "run_node_handler st op (Some a) (Some n) dat w = (Inr None, w)"
  using assms by (simp add: run_node_handler_known invoke_def)

text \<open>
  A local query for a scope where no tier holds a handler: the items query returns
  Python's \<open>None\<close>, while the info query passes that \<open>None\<close> to default injection, which
  subscripts it and raises \<open>TypeError\<close>.
\<close>

lemma local_get_items_unresolved:
  assumes "handlers st ''get_items'' = Some t" and "spec_resolve t a n = None"
  shows "get_items st (Some a) (Some n) True kwargs w = (Inr (Local None), w)"
  using assms by (simp add: get_items_def run_node_handler_unresolved)

lemma local_get_info_unresolved:
  assumes "handlers st ''get_info'' = Some t" and "spec_resolve t a n = None"
  shows "get_info st (Some a) (Some n) True kwargs w = (Inl TypeError, w)"
  using assms by (simp add: get_info_def run_node_handler_unresolved fix_default_info_def)

text \<open>
  Claim C4, the code at the failing input. After the global \<open>get_info\<close> handler of a
  freshly initialised registry has been removed, no tier holds a handler, and a local
  info query (no address, no node) raises \<open>TypeError\<close> instead of returning an empty
  result.
\<close>

theorem local_get_info_without_handler:
  "get_info (snd (del_node_handler example_registry ''get_info'' None None))
     None None False Map.empty empty_store = (Inl TypeError, empty_store)"
  by (simp add: get_info_def run_node_handler_def example_registry_cleared fix_default_info_def)

subsection \<open>Adding an item with an empty item address\<close>

text \<open>
  Claim C6, as amended. Adding an item with an empty item address does not fail in the
  plugin: the empty address is replaced by the process's own full bound address, and the
  call is the dispatch of the \<open>add_item\<close> handler with that address, the name and the item
  node as keyword data, exactly as if the full bound address had been passed.
\<close>

theorem add_item_empty_address:
  "add_item st [] name node subnode ijid w =
     add_item st (full (boundjid (xmpp st))) name node subnode ijid w \<and>
   add_item st [] name node subnode ijid w =
     (case run_node_handler st ''add_item'' ijid node
             (Kwargs [''ijid'' \<mapsto> PStr (full (boundjid (xmpp st))), ''name'' \<mapsto> PStr name,
                      ''inode'' \<mapsto> PStr subnode]) w of
        (Inl e, w') \<Rightarrow> (Inl e, w')
      | (Inr _, w') \<Rightarrow> (Inr (), w'))"
  by (simp add: add_item_def)

text \<open>
  Claim C6 as stated fails: on a freshly initialised registry whose \<open>add_item\<close> handler is
  the store's, adding an item with an empty item address returns normally and inserts
  an item carrying the full bound address.
\<close>

theorem add_item_empty_address_counterexample:
  "fst (add_item example_registry [] ''Lobby'' None [] None empty_store) = Inr () \<and>
   snd (add_item example_registry [] ''Lobby'' None [] None empty_store) (''bot@example.org'', [])
     = [(''bot@example.org/home'', [], ''Lobby'')]"
  by (simp add: add_item_def run_node_handler_def example_registry_add_item example_registry_xmpp
      example_xmpp_def own_jid_def store_add_item_def empty_store_def)

subsection \<open>Incoming get queries\<close>

text \<open>
  Claim C7, as amended. For an incoming info or items get query, when the handler
  dispatch returns normally (no handler resolved, or the handler returned a result),
  exactly one reply to the query is sent; when the dispatch raises, the stream handler
  raises the same error and sends nothing.
\<close>

theorem inbound_get_reply:
  assumes "iq_type q = ''get''"
    and "run_node_handler st ''get_info''
           (Some (if is_component (xmpp st) then full (iq_to q) else bare (iq_to q)))
           (Some (query_node q)) (Stanza q) w = (ri, wi)"
    and "run_node_handler st' ''get_items''
           (Some (if is_component (xmpp st') then full (iq_to q) else bare (iq_to q)))
           (Some (query_node q)) (Stanza q) w = (rt, wt)"
  shows "(case ri of
            Inl e \<Rightarrow> handle_disco_info sb st q w = (Inl e, wi)
          | Inr r \<Rightarrow> \<exists>p. handle_disco_info sb st q w = (Inr [Reply q p], wi)) \<and>
         (case rt of
            Inl e \<Rightarrow> handle_disco_items sb' st' q w = (Inl e, wt)
          | Inr r \<Rightarrow> \<exists>p. handle_disco_items sb' st' q w = (Inr [Reply q p], wt))"
proof -
  have "case ri of
            Inl e \<Rightarrow> handle_disco_info sb st q w = (Inl e, wi)
          | Inr r \<Rightarrow> \<exists>p. handle_disco_info sb st q w = (Inr [Reply q p], wi)"
  proof (cases ri)
    case (Inl e)
    with assms(1,2) show ?thesis by (simp add: handle_disco_info_def)
  next
    case (Inr r)
    show ?thesis
    proof (cases r)
      case None
      with Inr assms(1,2) show ?thesis by (simp add: handle_disco_info_def)
    next
      case (Some i)
      from fix_default_info_total obtain f where "fix_default_info (xmpp st) (Some i) = Inr f" ..
      with Some Inr assms(1,2) show ?thesis by (simp add: handle_disco_info_def)
    qed
  qed
  moreover have "case rt of
            Inl e \<Rightarrow> handle_disco_items sb' st' q w = (Inl e, wt)
          | Inr r \<Rightarrow> \<exists>p. handle_disco_items sb' st' q w = (Inr [Reply q p], wt)"
    using assms(1,3) by (simp add: handle_disco_items_def split: sum.splits option.splits)
  ultimately show ?thesis ..
qed

theorem inbound_get_reply_witness:
  "iq_type example_iq = ''get'' \<and>
   (\<exists>p. handle_disco_info (\<lambda>_. True) example_registry example_iq empty_store
          = (Inr [Reply example_iq p], empty_store)) \<and>
   (\<exists>p. handle_disco_items (\<lambda>_. True) example_registry example_iq empty_store
          = (Inr [Reply example_iq p], empty_store))"
proof -
  have g: "iq_type example_iq = ''get''" by (simp add: example_iq_def)
  have r: "run_node_handler example_registry ''get_info''
           (Some (if is_component (xmpp example_registry) then full (iq_to example_iq)
                  else bare (iq_to example_iq)))
           (Some (query_node example_iq)) (Stanza example_iq) empty_store
         = (Inr (Some \<lparr>info_node = ''get_info'', identities = [], features = []\<rparr>), empty_store)"
    by (simp add: run_node_handler_def example_registry_get_info tag_handler_def)
  have r': "run_node_handler example_registry ''get_items''
           (Some (if is_component (xmpp example_registry) then full (iq_to example_iq)
                  else bare (iq_to example_iq)))
           (Some (query_node example_iq)) (Stanza example_iq) empty_store
         = (Inr (Some \<lparr>info_node = ''get_items'', identities = [], features = []\<rparr>), empty_store)"
    by (simp add: run_node_handler_def example_registry_get_items tag_handler_def)
  from inbound_get_reply [OF g r r', of "\<lambda>_. True" "\<lambda>_. True"] g
  show ?thesis by simp
qed

text \<open>
  Claim C7 as stated fails: with a global \<open>get_info\<close> handler that raises, the incoming
  query ends in that error and no reply is sent.
\<close>

theorem inbound_handler_failure_counterexample:
  "handle_disco_info (\<lambda>_. True)
     (snd (set_node_handler example_registry ''get_info'' None None (Some raising_handler)))
     example_iq empty_store
   = (Inl (HandlerError ''boom''), empty_store)"
  by (simp add: handle_disco_info_def run_node_handler_def set_node_handler_def
      example_registry_ops get_info_supported example_registry_get_info example_iq_def
      raising_handler_def)

text \<open>
  Claim C10, as amended. For an incoming info get query on a registry that has the
  \<open>get_info\<close> hierarchy: when no tier holds a handler for the target scope, or when the
  handler returns \<open>None\<close> or a result that is false in a boolean context, the reply
  carries no payload and default injection is not applied. Whenever the handler returns
  a result that is true in a boolean context, the payload is that result after default
  injection; this includes a result with an empty node, no identities and no features,
  whose payload then carries exactly the generic identity and the discovery-info
  feature.
\<close>

theorem inbound_info_payload:
  assumes "iq_type q = ''get''" and "handlers st ''get_info'' = Some t"
  shows "(spec_resolve t (if is_component (xmpp st) then full (iq_to q) else bare (iq_to q))
            (query_node q) = None \<longrightarrow>
            handle_disco_info sb st q w = (Inr [Reply q None], w)) \<and>
         (\<forall>r w'. run_node_handler st ''get_info''
                   (Some (if is_component (xmpp st) then full (iq_to q) else bare (iq_to q)))
                   (Some (query_node q)) (Stanza q) w = (Inr r, w') \<longrightarrow>
            (r = None \<or> (\<exists>i. r = Some i \<and> \<not> sb i) \<longrightarrow>
               handle_disco_info sb st q w = (Inr [Reply q None], w')) \<and>
            (\<forall>i. r = Some i \<and> sb i \<longrightarrow>
               (\<exists>f. fix_default_info (xmpp st) (Some i) = Inr f \<and>
                    handle_disco_info sb st q w = (Inr [Reply q (Some f)], w'))) \<and>
            (\<forall>i. r = Some i \<and> sb i \<and> info_node i = [] \<and> identities i = [] \<and> features i = [] \<longrightarrow>
               handle_disco_info sb st q w =
                 (Inr [Reply q (Some (i\<lparr>identities :=
                                         [if is_component (xmpp st)
                                          then (''component'', ''generic'', None, None)
                                          else (''client'', ''bot'', None, None)],
                                       features := [disco_info_namespace]\<rparr>))], w')))"
proof (intro conjI impI allI)
  assume "spec_resolve t (if is_component (xmpp st) then full (iq_to q) else bare (iq_to q))
            (query_node q) = None"
  from run_node_handler_unresolved [OF assms(2) this] assms(1)
  show "handle_disco_info sb st q w = (Inr [Reply q None], w)"
    by (simp add: handle_disco_info_def)
next
  fix r w'
  assume run: "run_node_handler st ''get_info''
                   (Some (if is_component (xmpp st) then full (iq_to q) else bare (iq_to q)))
                   (Some (query_node q)) (Stanza q) w = (Inr r, w')"
  assume "r = None \<or> (\<exists>i. r = Some i \<and> \<not> sb i)"
  with run assms(1) show "handle_disco_info sb st q w = (Inr [Reply q None], w')"
    by (auto simp: handle_disco_info_def)
next
  fix r w' i
  assume run: "run_node_handler st ''get_info''
                   (Some (if is_component (xmpp st) then full (iq_to q) else bare (iq_to q)))
                   (Some (query_node q)) (Stanza q) w = (Inr r, w')"
  assume ri: "r = Some i \<and> sb i"
  from fix_default_info_total obtain f where f: "fix_default_info (xmpp st) (Some i) = Inr f" ..
  with run ri assms(1)
  show "\<exists>f. fix_default_info (xmpp st) (Some i) = Inr f \<and>
            handle_disco_info sb st q w = (Inr [Reply q (Some f)], w')"
    by (simp add: handle_disco_info_def)
next
  fix r w' i
  assume run: "run_node_handler st ''get_info''
                   (Some (if is_component (xmpp st) then full (iq_to q) else bare (iq_to q)))
                   (Some (query_node q)) (Stanza q) w = (Inr r, w')"
  assume ri: "r = Some i \<and> sb i \<and> info_node i = [] \<and> identities i = [] \<and> features i = []"
  then have "fix_default_info (xmpp st) (Some i) =
               Inr (i\<lparr>identities := [if is_component (xmpp st)
                                       then (''component'', ''generic'', None, None)
                                       else (''client'', ''bot'', None, None)],
                      features := [disco_info_namespace]\<rparr>)"
    by (simp add: fix_default_info_def info_add_identity_def info_add_feature_def)
  with run ri assms(1)
  show "handle_disco_info sb st q w =
                 (Inr [Reply q (Some (i\<lparr>identities :=
                                         [if is_component (xmpp st)
                                          then (''component'', ''generic'', None, None)
                                          else (''client'', ''bot'', None, None)],
                                       features := [disco_info_namespace]\<rparr>))], w')"
    by (simp add: handle_disco_info_def)
qed

theorem inbound_info_payload_witness:
  "iq_type example_iq = ''get'' \<and>
   handlers (snd (del_node_handler example_registry ''get_info'' None None)) ''get_info''
     = Some \<lparr>h_global = None, h_jid = Map.empty, h_node = Map.empty\<rparr> \<and>
   handle_disco_info (\<lambda>_. True) (snd (del_node_handler example_registry ''get_info'' None None))
       example_iq empty_store
     = (Inr [Reply example_iq None], empty_store) \<and>
   handlers example_blank ''get_info''
     = Some \<lparr>h_global = Some (tag_handler []), h_jid = Map.empty, h_node = Map.empty\<rparr> \<and>
   handle_disco_info (\<lambda>_. False) example_blank example_iq empty_store
     = (Inr [Reply example_iq None], empty_store) \<and>
   handle_disco_info (\<lambda>_. True) example_blank example_iq empty_store
     = (Inr [Reply example_iq
               (Some \<lparr>info_node = [], identities = [(''client'', ''bot'', None, None)],
                      features = [''http://jabber.org/protocol/disco#info'']\<rparr>)],
        empty_store)"
proof -
  have g: "iq_type example_iq = ''get''" by (simp add: example_iq_def)
  have a: "handle_disco_info (\<lambda>_. True) (snd (del_node_handler example_registry ''get_info'' None None))
       example_iq empty_store
     = (Inr [Reply example_iq None], empty_store)"
    using inbound_info_payload [OF g example_registry_cleared,
        where sb = "\<lambda>_. True" and w = empty_store]
    by (simp add: spec_resolve_def spec_tiers_def tier_entry_def)
  have b: "handle_disco_info (\<lambda>_. False) example_blank example_iq empty_store
     = (Inr [Reply example_iq None], empty_store)"
    using inbound_info_payload [OF g example_blank_get_info,
        where sb = "\<lambda>_. False" and w = empty_store]
      example_blank_run
    by blast
  have c: "handle_disco_info (\<lambda>_. True) example_blank example_iq empty_store
     = (Inr [Reply example_iq
               (Some \<lparr>info_node = [], identities = [(''client'', ''bot'', None, None)],
                      features = [''http://jabber.org/protocol/disco#info'']\<rparr>)],
        empty_store)"
  proof -
    from inbound_info_payload [OF g example_blank_get_info,
        where sb = "\<lambda>_. True" and w = empty_store]
      example_blank_run
    have "handle_disco_info (\<lambda>_. True) example_blank example_iq empty_store =
            (Inr [Reply example_iq
               (Some (\<lparr>info_node = [], identities = [], features = []\<rparr>
                        \<lparr>identities := [if is_component (xmpp example_blank)
                                        then (''component'', ''generic'', None, None)
                                        else (''client'', ''bot'', None, None)],
                         features := [disco_info_namespace]\<rparr>))], empty_store)"
      by (metis (no_types, lifting) disco_info.select_convs(1,2,3))
    then show ?thesis
      by (simp add: example_blank_xmpp example_xmpp_def disco_info_namespace_def)
  qed
  from g example_registry_cleared a example_blank_get_info b c show ?thesis by simp
qed

text \<open>
  Claim C10 as stated fails: with stanza objects true in a boolean context, a handler
  that returns an info result with no identities and no features does not lead to a
  reply without payload; the reply carries the result with the client identity and the
  discovery-info feature injected.
\<close>

theorem empty_info_injected_counterexample:
  "handle_disco_info (\<lambda>_. True) example_blank example_iq empty_store
     = (Inr [Reply example_iq
               (Some \<lparr>info_node = [], identities = [(''client'', ''bot'', None, None)],
                      features = [''http://jabber.org/protocol/disco#info'']\<rparr>)],
        empty_store)"
  by (simp add: handle_disco_info_def run_node_handler_def example_blank_get_info
      example_blank_xmpp example_xmpp_def example_iq_def tag_handler_def fix_default_info_def
      info_add_identity_def info_add_feature_def disco_info_namespace_def)

end
